theory Spec2Isabelle
  imports Main "HOL-Library.Word"
begin

section \<open>The operating system as seen by start_local.py\<close>

text \<open>
  The script talks to the operating system through the socket module, os.chdir, print,
  threading and webbrowser. Each of these calls is an effect on a \<open>world\<close>:
  \<^item> \<open>unavailable\<close>: the addresses the kernel refuses to bind (the port is held by
    another process, or is privileged);
  \<^item> \<open>ephemeral\<close>: the 16-bit port the kernel hands out for a bind to port 0, none
    when it has run out of them;
  \<^item> \<open>socks\<close>: the sockets this process has open, each with the address it is
    bound to, if any;
  \<^item> \<open>cwd\<close>: the working directory;
  \<^item> \<open>trace\<close>: the effects performed so far, in program order.

  What other processes hold is taken to stay the same during a run. The event
  \<open>FileWrite\<close> stands for any write to the file system; no operation of the script
  produces it.
\<close>

datatype py_error = OSError | OverflowError

datatype event =
    SocketCreate nat
  | Bind nat string int
  | Listen nat
  | Close nat
  | Chdir string
  | Print string
  | ThreadStart
  | BrowserOpen string
  | ThreadJoin
  | Shutdown
  | FileWrite string

record world =
  unavailable :: "string \<Rightarrow> int \<Rightarrow> bool"
  ephemeral :: "16 word option"
  socks :: "(nat \<times> (string \<times> int) option) list"
  cwd :: string
  trace :: "event list"

definition log :: "event \<Rightarrow> world \<Rightarrow> world" where
  "log e w = w\<lparr>trace := trace w @ [e]\<rparr>"

text \<open>A new socket object gets an identifier no open socket of the process has.\<close>

definition fresh_id :: "world \<Rightarrow> nat" where
  "fresh_id w = Suc (foldr max (map fst (socks w)) 0)"

text \<open>
  \<^verbatim>\<open>socket.socket(socket.AF_INET, socket.SOCK_STREAM)\<close>: an open, unbound socket.
  Creating a socket is taken to succeed.
\<close>

definition socket_new :: "world \<Rightarrow> nat \<times> world" where
  "socket_new w =
     (fresh_id w, log (SocketCreate (fresh_id w)) (w\<lparr>socks := socks w @ [(fresh_id w, None)]\<rparr>))"

definition port_held :: "world \<Rightarrow> string \<Rightarrow> int \<Rightarrow> bool" where
  "port_held w host p = list_ex (\<lambda>(f, a). a = Some (host, p)) (socks w)"

definition set_addr :: "nat \<Rightarrow> string \<times> int \<Rightarrow> world \<Rightarrow> world" where
  "set_addr fd addr w =
     w\<lparr>socks := map (\<lambda>(f, a). if f = fd then (f, Some addr) else (f, a)) (socks w)\<rparr>"

text \<open>
  \<^verbatim>\<open>s.bind((host, port))\<close>. CPython converts the port before it calls the kernel and
  raises OverflowError ("bind(): port must be 0-65535.") for a port outside 0..65535;
  OverflowError is not an OSError. Port 0 asks the kernel for an ephemeral port, which
  fails with an OSError only when the kernel has none to give. Any other port is
  refused with an OSError (address in use, permission denied) when the kernel does
  not grant it or the process itself has a socket bound to it.
\<close>

definition sock_bind :: "nat \<Rightarrow> string \<times> int \<Rightarrow> world \<Rightarrow> py_error option \<times> world" where
  "sock_bind fd addr w =
     (let host = fst addr; p = snd addr; w1 = log (Bind fd host p) w in
      if p < 0 \<or> 65535 < p then (Some OverflowError, w1)
      else if p = 0 then
        (case ephemeral w of
           None \<Rightarrow> (Some OSError, w1)
         | Some e \<Rightarrow> (None, set_addr fd (host, uint e) w1))
      else if unavailable w host p \<or> port_held w host p then (Some OSError, w1)
      else (None, set_addr fd (host, p) w1))"

text \<open>\<^verbatim>\<open>s.getsockname()\<close>: the bound address, ('0.0.0.0', 0) for an unbound socket.\<close>

definition sock_getsockname :: "nat \<Rightarrow> world \<Rightarrow> string \<times> int" where
  "sock_getsockname fd w =
     (case map_of (socks w) fd of
        Some (Some addr) \<Rightarrow> addr
      | _ \<Rightarrow> (''0.0.0.0'', 0))"

text \<open>\<^verbatim>\<open>s.close()\<close>, which \<^verbatim>\<open>contextlib.closing\<close> calls when its block is left.\<close>

definition sock_close :: "nat \<Rightarrow> world \<Rightarrow> world" where
  "sock_close fd w = log (Close fd) (w\<lparr>socks := filter (\<lambda>(f, a). f \<noteq> fd) (socks w)\<rparr>)"

section \<open>find_free_port\<close>

text \<open>
  The loop of find_free_port over its candidate ports. Each round opens a probe socket
  inside \<^verbatim>\<open>contextlib.closing\<close>, so the socket is closed however the round ends:
  on the return, on the \<^verbatim>\<open>continue\<close> after a caught OSError, and when another
  exception leaves the block. Falling off the end of the loop returns 0.
\<close>

fun probe_ports :: "int list \<Rightarrow> world \<Rightarrow> (py_error + int) \<times> world" where
  "probe_ports [] w = (Inr 0, w)"
| "probe_ports (p # ps) w =
     (case socket_new w of (s, w1) \<Rightarrow>
        (case sock_bind s (''127.0.0.1'', p) w1 of
           (None, w2) \<Rightarrow> (Inr p, sock_close s w2)
         | (Some OSError, w2) \<Rightarrow> probe_ports ps (sock_close s w2)
         | (Some OverflowError, w2) \<Rightarrow> (Inl OverflowError, sock_close s w2)))"

definition find_free_port :: "int \<Rightarrow> world \<Rightarrow> (py_error + int) \<times> world" where
  "find_free_port preferred w =
     (if preferred = 0 then
        (case socket_new w of (s, w1) \<Rightarrow>
           (case sock_bind s (''127.0.0.1'', 0) w1 of
              (Some e, w2) \<Rightarrow> (Inl e, sock_close s w2)
            | (None, w2) \<Rightarrow> (Inr (snd (sock_getsockname s w2)), sock_close s w2)))
      else probe_ports (preferred # [8001..8010]) w)"

section \<open>NoCacheRequestHandler\<close>







section \<open>serve and main\<close>

text \<open>Python's \<^verbatim>\<open>str\<close> of an int, which an f-string uses for \<^verbatim>\<open>{port}\<close>.\<close>

fun str_nat :: "nat \<Rightarrow> string" where
  "str_nat n =
     (if n < 10 then [''0123456789'' ! n]
      else str_nat (n div 10) @ [''0123456789'' ! (n mod 10)])"

definition py_str :: "int \<Rightarrow> string" where
  "py_str i = (if i < 0 then CHR ''-'' # str_nat (nat (- i)) else str_nat (nat i))"

record http_server =
  server_socket :: nat
  server_address :: "string \<times> int"

text \<open>
  The constructor \<^verbatim>\<open>http.server.ThreadingHTTPServer(address, handler_class)\<close>, from
  \<^verbatim>\<open>socketserver.TCPServer.__init__\<close>: create the socket, bind it, store
  \<^verbatim>\<open>getsockname()\<close> as server_address, listen; if binding raises, close the socket and
  re-raise. (The server sets SO_REUSEADDR before it binds; the model uses the same
  availability of ports as for a probe socket.)
\<close>

definition ThreadingHTTPServer :: "string \<times> int \<Rightarrow> world \<Rightarrow> (py_error + http_server) \<times> world" where
  "ThreadingHTTPServer addr w =
     (case socket_new w of (s, w1) \<Rightarrow>
        (case sock_bind s addr w1 of
           (Some e, w2) \<Rightarrow> (Inl e, sock_close s w2)
         | (None, w2) \<Rightarrow>
             (Inr \<lparr>server_socket = s, server_address = sock_getsockname s w2\<rparr>,
              log (Listen s) w2)))"

definition serve :: "int \<Rightarrow> world \<Rightarrow> (py_error + http_server \<times> string) \<times> world" where
  "serve port w =
     (case ThreadingHTTPServer (''127.0.0.1'', port) w of
        (Inl e, w1) \<Rightarrow> (Inl e, w1)
      | (Inr server, w1) \<Rightarrow>
          (Inr (server,
                ''http://127.0.0.1:'' @ py_str (snd (server_address server)) @ ''/index.html''),
           w1))"

definition os_chdir :: "string \<Rightarrow> world \<Rightarrow> world" where
  "os_chdir d w = log (Chdir d) (w\<lparr>cwd := d\<rparr>)"

definition py_print :: "string \<Rightarrow> world \<Rightarrow> world" where
  "py_print s w = log (Print s) w"

text \<open>\<^verbatim>\<open>httpd.shutdown()\<close> followed by \<^verbatim>\<open>httpd.server_close()\<close>: the finally block of main.\<close>

definition shutdown_and_close :: "http_server \<Rightarrow> world \<Rightarrow> world" where
  "shutdown_and_close httpd w = sock_close (server_socket httpd) (log Shutdown w)"

text \<open>
  Where a KeyboardInterrupt reaches the main thread once the server thread has been
  started: inside \<^verbatim>\<open>webbrowser.open\<close>, inside \<^verbatim>\<open>thread.join()\<close>, or never. Without an
  interrupt the join never returns, since serve_forever only ends on shutdown. An
  interrupt during startup, before the try block is entered, is not modelled.
\<close>

datatype interrupt = NoInterrupt | InterruptInOpen | InterruptInJoin

datatype outcome = Returned int | Raised py_error | Blocked

text \<open>
  main. \<open>script_dir\<close> is the value of
  \<^verbatim>\<open>os.path.dirname(os.path.abspath(__file__))\<close> and \<open>args_port\<close> the parsed
  \<^verbatim>\<open>--port\<close> (8000 when absent). An exception of find_free_port or serve leaves main.
\<close>

definition main :: "string \<Rightarrow> int \<Rightarrow> interrupt \<Rightarrow> world \<Rightarrow> outcome \<times> world" where
  "main script_dir args_port intr w =
     (case find_free_port args_port (os_chdir script_dir w) of
        (Inl e, w2) \<Rightarrow> (Raised e, w2)
      | (Inr port, w2) \<Rightarrow>
          (case serve port w2 of
             (Inl e, w3) \<Rightarrow> (Raised e, w3)
           | (Inr (httpd, url), w3) \<Rightarrow>
               (let w4 = py_print (''Serving at: http://127.0.0.1:'' @ py_str port) w3;
                    w5 = py_print (''Homepage:   '' @ url) w4;
                    w6 = log ThreadStart w5;
                    w7 = log (BrowserOpen url) w6
                in case intr of
                     InterruptInOpen \<Rightarrow>
                       (Returned 0,
                        shutdown_and_close httpd (py_print (CHR 0x0A # ''Shutting down...'') w7))
                   | InterruptInJoin \<Rightarrow>
                       (Returned 0,
                        shutdown_and_close httpd
                          (py_print (CHR 0x0A # ''Shutting down...'') (log ThreadJoin w7)))
                   | NoInterrupt \<Rightarrow> (Blocked, log ThreadJoin w7))))"


section \<open>Notions used to state the properties\<close>

text \<open>What binding a newly created socket to an address gives, and the world after it.\<close>

definition probe_result :: "world \<Rightarrow> string \<times> int \<Rightarrow> py_error option" where
  "probe_result w addr = fst (sock_bind (fresh_id w) addr (snd (socket_new w)))"

definition bound :: "world \<Rightarrow> string \<times> int \<Rightarrow> world" where
  "bound w addr = snd (sock_bind (fresh_id w) addr (snd (socket_new w)))"

definition after_probe :: "world \<Rightarrow> string \<times> int \<Rightarrow> world" where
  "after_probe w addr = sock_close (fresh_id w) (bound w addr)"

text \<open>The port a socket gets when it is bound with port \<open>p\<close>: for 0, the kernel's choice.\<close>

definition bound_port :: "world \<Rightarrow> int \<Rightarrow> int" where
  "bound_port w p = (if p = 0 then (case ephemeral w of Some e \<Rightarrow> uint e | None \<Rightarrow> 0) else p)"

text \<open>A probe socket binds port \<open>p\<close> on loopback.\<close>

definition probe_binds :: "world \<Rightarrow> int \<Rightarrow> bool" where
  "probe_binds w p = (probe_result w (''127.0.0.1'', p) = None)"

text \<open>Two worlds that differ at most in the effects recorded so far.\<close>

definition same_os :: "world \<Rightarrow> world \<Rightarrow> bool" where
  "same_os w w' =
     (unavailable w' = unavailable w \<and> ephemeral w' = ephemeral w \<and>
      socks w' = socks w \<and> cwd w' = cwd w)"

text \<open>The effects performed between two worlds, and the lines printed among them.\<close>

definition new_events :: "world \<Rightarrow> world \<Rightarrow> event list" where
  "new_events w w' = drop (length (trace w)) (trace w')"

fun printed :: "event list \<Rightarrow> string list" where
  "printed [] = []"
| "printed (Print s # es) = s # printed es"
| "printed (e # es) = printed es"

definition binds_loopback :: "event \<Rightarrow> bool" where
  "binds_loopback e = (case e of Bind fd host p \<Rightarrow> host = ''127.0.0.1'' | _ \<Rightarrow> True)"



text \<open>The effects of one probe: socket calls on loopback and nothing else.\<close>

definition socket_event :: "event \<Rightarrow> bool" where
  "socket_event e =
     (case e of SocketCreate fd \<Rightarrow> True | Bind fd host p \<Rightarrow> host = ''127.0.0.1''
      | Listen fd \<Rightarrow> True | Close fd \<Rightarrow> True | _ \<Rightarrow> False)"

text \<open>Effects other than a bind off loopback, a change of directory or a file write.\<close>

definition main_event :: "event \<Rightarrow> bool" where
  "main_event e =
     (case e of Bind fd host p \<Rightarrow> host = ''127.0.0.1'' | Chdir d \<Rightarrow> False
      | FileWrite path \<Rightarrow> False | _ \<Rightarrow> True)"




text \<open>
  Two concrete worlds of a process with no socket open: one where every port can be
  bound, one where ports 8000 to 8010 are all taken. In both the kernel would hand out
  49152 for a bind to port 0.
\<close>

definition world_free :: world where
  "world_free =
     \<lparr>unavailable = (\<lambda>host p. False), ephemeral = Some 49152, socks = [],
      cwd = ''/home'', trace = []\<rparr>"

definition world_busy :: world where
  "world_busy =
     \<lparr>unavailable = (\<lambda>host p. 8000 \<le> p \<and> p \<le> 8010), ephemeral = Some 49152, socks = [],
      cwd = ''/home'', trace = []\<rparr>"

section \<open>Probe sockets are closed\<close>

lemma le_foldr_max: "x \<in> set xs \<Longrightarrow> x \<le> foldr max xs (0::nat)"
  by (induction xs) (auto simp: max_def)

lemma fresh_id_fresh: "(f, a) \<in> set (socks w) \<Longrightarrow> f \<noteq> fresh_id w"
proof
  assume mem: "(f, a) \<in> set (socks w)" and eq: "f = fresh_id w"
  from mem have "f \<in> set (map fst (socks w))" by force
  then have "f \<le> foldr max (map fst (socks w)) 0" by (rule le_foldr_max)
  with eq show False by (simp add: fresh_id_def)
qed

lemma filter_fresh: "filter (\<lambda>(f, a). f \<noteq> fresh_id w) (socks w) = socks w"
  by (rule filter_True) (auto dest: fresh_id_fresh)

lemma socks_sock_bind:
  "filter (\<lambda>(f, a). f \<noteq> fd) (socks (snd (sock_bind fd addr w))) =
   filter (\<lambda>(f, a). f \<noteq> fd) (socks w)"
proof -
  have "filter (\<lambda>(f, a). f \<noteq> fd)
          (map (\<lambda>(f, a). if f = fd then (f, Some x) else (f, a)) xs) =
        filter (\<lambda>(f, a). f \<noteq> fd) xs" for x :: "string \<times> int" and xs
    by (induction xs) auto
  then show ?thesis
    by (simp add: sock_bind_def Let_def set_addr_def log_def split: option.splits)
qed

text \<open>One round of probing: open, bind, close leaves the process's sockets as they were.\<close>

lemma socks_probe_round:
  "socket_new w = (s, w1) \<Longrightarrow> sock_bind s addr w1 = (r, w2) \<Longrightarrow>
   socks (sock_close s w2) = socks w"
proof -
  assume new: "socket_new w = (s, w1)" and bind: "sock_bind s addr w1 = (r, w2)"
  from new have s: "s = fresh_id w" and w1: "socks w1 = socks w @ [(fresh_id w, None)]"
    by (auto simp: socket_new_def log_def)
  have "socks (sock_close s w2) = filter (\<lambda>(f, a). f \<noteq> s) (socks w2)"
    by (simp add: sock_close_def log_def)
  also have "\<dots> = filter (\<lambda>(f, a). f \<noteq> s) (socks w1)"
    using socks_sock_bind [of s addr w1] bind by simp
  also have "\<dots> = socks w"
    by (simp add: s w1 filter_fresh)
  finally show ?thesis .
qed

lemma socks_probe_ports: "socks (snd (probe_ports ps w)) = socks w"
proof (induction ps arbitrary: w)
  case Nil
  show ?case by simp
next
  case (Cons p ps)
  obtain s w1 where new: "socket_new w = (s, w1)" by (cases "socket_new w")
  obtain r w2 where bind: "sock_bind s (''127.0.0.1'', p) w1 = (r, w2)"
    by (cases "sock_bind s (''127.0.0.1'', p) w1")
  have closed: "socks (sock_close s w2) = socks w"
    using new bind by (rule socks_probe_round)
  show ?case
  proof (cases r)
    case None
    with new bind closed show ?thesis by simp
  next
    case (Some e)
    with new bind closed Cons.IH [of "sock_close s w2"] show ?thesis
      by (cases e) simp_all
  qed
qed

text \<open>
  C10. Whatever the preferred port and however find_free_port ends (a port, 0, or an
  exception), the sockets the process has open afterwards are exactly those it had
  open before: every probe socket has been closed, none is left bound.
\<close>

theorem find_free_port_closes_probes:
  "socks (snd (find_free_port preferred w)) = socks w"
proof (cases "preferred = 0")
  case False
  then show ?thesis by (simp only: find_free_port_def if_False socks_probe_ports)
next
  case True
  obtain s w1 where new: "socket_new w = (s, w1)" by (cases "socket_new w")
  obtain r w2 where bind: "sock_bind s (''127.0.0.1'', 0) w1 = (r, w2)"
    by (cases "sock_bind s (''127.0.0.1'', 0) w1")
  have "socks (sock_close s w2) = socks w"
    using new bind by (rule socks_probe_round)
  with True new bind show ?thesis
    by (cases r) (simp_all add: find_free_port_def)
qed

section \<open>What each operation does to the world\<close>

lemma log_fields [simp]:
  "unavailable (log e w) = unavailable w" "ephemeral (log e w) = ephemeral w"
  "socks (log e w) = socks w" "cwd (log e w) = cwd w" "trace (log e w) = trace w @ [e]"
  by (simp_all add: log_def)

lemma fresh_id_log [simp]: "fresh_id (log e w) = fresh_id w"
  by (simp add: fresh_id_def)

lemma socket_new_fields [simp]:
  "fst (socket_new w) = fresh_id w"
  "unavailable (snd (socket_new w)) = unavailable w"
  "ephemeral (snd (socket_new w)) = ephemeral w"
  "cwd (snd (socket_new w)) = cwd w"
  "socks (snd (socket_new w)) = socks w @ [(fresh_id w, None)]"
  "trace (snd (socket_new w)) = trace w @ [SocketCreate (fresh_id w)]"
  by (simp_all add: socket_new_def)

lemma sock_bind_fields [simp]:
  "unavailable (snd (sock_bind fd addr w)) = unavailable w"
  "ephemeral (snd (sock_bind fd addr w)) = ephemeral w"
  "cwd (snd (sock_bind fd addr w)) = cwd w"
  "trace (snd (sock_bind fd addr w)) = trace w @ [Bind fd (fst addr) (snd addr)]"
  by (simp_all add: sock_bind_def Let_def set_addr_def split: option.splits)

lemma sock_close_fields [simp]:
  "unavailable (sock_close fd w) = unavailable w"
  "ephemeral (sock_close fd w) = ephemeral w"
  "cwd (sock_close fd w) = cwd w"
  "socks (sock_close fd w) = filter (\<lambda>(f, a). f \<noteq> fd) (socks w)"
  "trace (sock_close fd w) = trace w @ [Close fd]"
  by (simp_all add: sock_close_def)

lemma port_held_socket_new [simp]: "port_held (snd (socket_new w)) host p = port_held w host p"
  by (simp add: port_held_def list_ex_iff)

lemma probe_result_eq:
  "probe_result w (host, p) =
     (if p < 0 \<or> 65535 < p then Some OverflowError
      else if p = 0 then (case ephemeral w of None \<Rightarrow> Some OSError | Some e \<Rightarrow> None)
      else if unavailable w host p \<or> port_held w host p then Some OSError
      else None)"
  by (simp add: probe_result_def sock_bind_def Let_def split: option.splits)

lemma after_probe_fields [simp]:
  "unavailable (after_probe w addr) = unavailable w"
  "ephemeral (after_probe w addr) = ephemeral w"
  "cwd (after_probe w addr) = cwd w"
  "trace (after_probe w addr) =
     trace w @ [SocketCreate (fresh_id w), Bind (fresh_id w) (fst addr) (snd addr), Close (fresh_id w)]"
  by (simp_all add: after_probe_def bound_def)

lemma socks_after_probe [simp]: "socks (after_probe w addr) = socks w"
  unfolding after_probe_def bound_def
  by (rule socks_probe_round [where addr = addr and ?w1.0 = "snd (socket_new w)"
        and r = "fst (sock_bind (fresh_id w) addr (snd (socket_new w)))"])
     (simp_all add: prod_eq_iff)

lemma probe_ports_Cons:
  "probe_ports (p # ps) w =
     (case probe_result w (''127.0.0.1'', p) of
        None \<Rightarrow> (Inr p, after_probe w (''127.0.0.1'', p))
      | Some OSError \<Rightarrow> probe_ports ps (after_probe w (''127.0.0.1'', p))
      | Some OverflowError \<Rightarrow> (Inl OverflowError, after_probe w (''127.0.0.1'', p)))"
  by (simp add: split_beta probe_result_def after_probe_def bound_def
        split: option.splits py_error.splits)

lemma find_free_port_zero_eq:
  "find_free_port 0 w =
     (case probe_result w (''127.0.0.1'', 0) of
        Some e \<Rightarrow> (Inl e, after_probe w (''127.0.0.1'', 0))
      | None \<Rightarrow> (Inr (snd (sock_getsockname (fresh_id w) (bound w (''127.0.0.1'', 0)))),
                 after_probe w (''127.0.0.1'', 0)))"
  by (simp add: find_free_port_def split_beta probe_result_def after_probe_def bound_def
        split: option.splits)

lemma ThreadingHTTPServer_eq:
  "ThreadingHTTPServer addr w =
     (case probe_result w addr of
        Some e \<Rightarrow> (Inl e, after_probe w addr)
      | None \<Rightarrow>
          (Inr \<lparr>server_socket = fresh_id w,
                server_address = sock_getsockname (fresh_id w) (bound w addr)\<rparr>,
           log (Listen (fresh_id w)) (bound w addr)))"
  by (simp add: ThreadingHTTPServer_def split_beta probe_result_def after_probe_def bound_def
        split: option.splits)

declare probe_ports.simps(2) [simp del]

section \<open>The scan of find_free_port\<close>

lemma same_os_refl [simp]: "same_os w w"
  by (simp add: same_os_def)

lemma same_os_after_probe [simp]: "same_os w (after_probe w' addr) = same_os w w'"
  by (simp add: same_os_def)

lemma same_os_probe_result: "same_os w w' \<Longrightarrow> probe_result w' addr = probe_result w addr"
  by (cases addr) (simp add: probe_result_eq same_os_def port_held_def)

lemma in_range_not_overflow:
  "0 \<le> p \<Longrightarrow> p \<le> 65535 \<Longrightarrow> probe_result w (host, p) \<noteq> Some OverflowError"
  by (simp add: probe_result_eq split: option.splits)

lemma probe_ports_result:
  "same_os w w' \<Longrightarrow> \<forall>p \<in> set ps. 0 \<le> p \<and> p \<le> 65535 \<Longrightarrow>
   fst (probe_ports ps w') =
     Inr (case List.find (probe_binds w) ps of Some q \<Rightarrow> q | None \<Rightarrow> 0)"
proof (induction ps arbitrary: w')
  case Nil
  show ?case by simp
next
  case (Cons p ps)
  let ?r = "probe_result w (''127.0.0.1'', p)"
  have r: "probe_result w' (''127.0.0.1'', p) = ?r"
    using Cons.prems(1) by (rule same_os_probe_result)
  have no_overflow: "?r \<noteq> Some OverflowError"
    using Cons.prems(2) by (simp add: in_range_not_overflow)
  show ?case
  proof (cases ?r)
    case None
    then have "probe_binds w p" by (simp add: probe_binds_def)
    with None show ?thesis by (simp add: probe_ports_Cons r)
  next
    case (Some e)
    then have not_p: "\<not> probe_binds w p" by (simp add: probe_binds_def)
    from Some no_overflow have e: "e = OSError" by (cases e) simp_all
    have "fst (probe_ports ps (after_probe w' (''127.0.0.1'', p))) =
          Inr (case List.find (probe_binds w) ps of Some q \<Rightarrow> q | None \<Rightarrow> 0)"
      using Cons.prems by (intro Cons.IH) simp_all
    with Some e not_p show ?thesis by (simp add: probe_ports_Cons r)
  qed
qed

lemma probe_ports_trace:
  "\<exists>evs. trace (snd (probe_ports ps w)) = trace w @ evs \<and> list_all socket_event evs"
proof (induction ps arbitrary: w)
  case Nil
  show ?case by simp
next
  case (Cons p ps)
  let ?w = "after_probe w (''127.0.0.1'', p)"
  let ?evs = "[SocketCreate (fresh_id w), Bind (fresh_id w) ''127.0.0.1'' p, Close (fresh_id w)]"
  have step: "trace ?w = trace w @ ?evs" and ok: "list_all socket_event ?evs"
    by (simp_all add: socket_event_def)
  from Cons.IH [of ?w] obtain evs
    where evs: "trace (snd (probe_ports ps ?w)) = trace ?w @ evs" "list_all socket_event evs"
    by blast
  show ?case
  proof (cases "probe_result w (''127.0.0.1'', p)")
    case None
    with step ok show ?thesis by (simp add: probe_ports_Cons)
  next
    case (Some e)
    show ?thesis
    proof (cases e)
      case OSError
      with Some evs step ok show ?thesis by (simp add: probe_ports_Cons)
    next
      case OverflowError
      with Some step ok show ?thesis by (simp add: probe_ports_Cons)
    qed
  qed
qed

lemma probe_ports_same_os: "same_os w (snd (probe_ports ps w')) = same_os w w'"
proof (induction ps arbitrary: w')
  case Nil
  show ?case by simp
next
  case (Cons p ps)
  from Cons.IH [of "after_probe w' (''127.0.0.1'', p)"] show ?case
    by (simp add: probe_ports_Cons split: option.splits py_error.splits)
qed

lemma find_free_port_first_attempt:
  "preferred \<noteq> 0 \<Longrightarrow>
   \<exists>rest. trace (snd (find_free_port preferred w)) =
     trace w @ SocketCreate (fresh_id w) # Bind (fresh_id w) ''127.0.0.1'' preferred # rest"
proof -
  assume nz: "preferred \<noteq> 0"
  let ?w = "after_probe w (''127.0.0.1'', preferred)"
  obtain evs where evs: "trace (snd (probe_ports [8001..8010] ?w)) = trace ?w @ evs"
    using probe_ports_trace [of "[8001..8010]" ?w] by blast
  show ?thesis
  proof (cases "probe_result w (''127.0.0.1'', preferred)")
    case None
    with nz show ?thesis by (simp add: find_free_port_def probe_ports_Cons)
  next
    case (Some e)
    with nz evs show ?thesis
      by (cases e) (simp_all add: find_free_port_def probe_ports_Cons)
  qed
qed

lemma fallback_in_range: "\<forall>p \<in> set [8001..8010]. 0 \<le> p \<and> p \<le> (65535::int)"
  by simp

text \<open>
  C1, for a preferred port between 1 and 65535. find_free_port first creates a probe
  socket and calls bind on it with the preferred port on 127.0.0.1. It returns the
  preferred port if that bind succeeds, else the first port of 8001..8010 that a probe
  socket binds, else 0.
\<close>

theorem find_free_port_scan:
  assumes "0 < P" and "P \<le> 65535"
  shows "fst (find_free_port P w) =
           Inr (if probe_binds w P then P
                else case List.find (probe_binds w) [8001..8010] of Some q \<Rightarrow> q | None \<Rightarrow> 0) \<and>
         (\<exists>rest. trace (snd (find_free_port P w)) =
            trace w @ SocketCreate (fresh_id w) # Bind (fresh_id w) ''127.0.0.1'' P # rest)"
proof
  have "\<forall>p \<in> set (P # [8001..8010]). 0 \<le> p \<and> p \<le> 65535"
    using assms fallback_in_range by simp
  then have "fst (probe_ports (P # [8001..8010]) w) =
      Inr (case List.find (probe_binds w) (P # [8001..8010]) of Some q \<Rightarrow> q | None \<Rightarrow> 0)"
    by (intro probe_ports_result) simp_all
  with assms show "fst (find_free_port P w) =
           Inr (if probe_binds w P then P
                else case List.find (probe_binds w) [8001..8010] of Some q \<Rightarrow> q | None \<Rightarrow> 0)"
    by (simp add: find_free_port_def)
next
  from assms have "P \<noteq> 0" by simp
  then show "\<exists>rest. trace (snd (find_free_port P w)) =
            trace w @ SocketCreate (fresh_id w) # Bind (fresh_id w) ''127.0.0.1'' P # rest"
    by (rule find_free_port_first_attempt)
qed

section \<open>Results of find_free_port\<close>

lemma world_free_fields [simp]:
  "unavailable world_free = (\<lambda>host p. False)" "ephemeral world_free = Some 49152"
  "socks world_free = []" "trace world_free = []" "cwd world_free = ''/home''"
  by (simp_all add: world_free_def)

lemma world_busy_fields [simp]:
  "unavailable world_busy = (\<lambda>host p. 8000 \<le> p \<and> p \<le> 8010)" "ephemeral world_busy = Some 49152"
  "socks world_busy = []" "trace world_busy = []" "cwd world_busy = ''/home''"
  by (simp_all add: world_busy_def)

lemma probe_binds_eq:
  "probe_binds w p =
     (0 \<le> p \<and> p \<le> 65535 \<and>
      (if p = 0 then ephemeral w \<noteq> None
       else \<not> unavailable w ''127.0.0.1'' p \<and> \<not> port_held w ''127.0.0.1'' p))"
  by (auto simp: probe_binds_def probe_result_eq split: option.splits)

text \<open>
  With ports 8000 to 8010 all taken, a preferred port of 8000 gives 0.
\<close>

theorem find_free_port_scan_witness:
  "(0::int) < 8000 \<and> (8000::int) \<le> 65535 \<and> fst (find_free_port 8000 world_busy) = Inr 0"
  using find_free_port_scan [of 8000 world_busy] by (simp add: probe_binds_eq)

text \<open>
  C1 as stated, for every integer other than 0, fails at 65536: binding the probe socket
  fails and port 8001 could be bound, but rather than returning 8001 the function is
  left by the OverflowError that bind raises, which \<^verbatim>\<open>except OSError\<close> does not catch.
\<close>

theorem find_free_port_scan_counterexample:
  "\<not> probe_binds world_free 65536 \<and> probe_binds world_free 8001 \<and>
   fst (find_free_port 65536 world_free) = Inl OverflowError"
  by (simp add: probe_binds_eq port_held_def find_free_port_def probe_ports_Cons probe_result_eq)

text \<open>
  C3, for a preferred port between 0 and 65535. find_free_port returns a port and raises
  nothing: for a port other than 0 whatever the kernel answers to the binds, for port 0
  provided the kernel has an ephemeral port to give.
\<close>

theorem find_free_port_no_raise:
  assumes "0 \<le> P" and "P \<le> 65535" and "P = 0 \<longrightarrow> ephemeral w \<noteq> None"
  shows "\<exists>port. fst (find_free_port P w) = Inr port"
proof (cases "P = 0")
  case True
  with assms(3) show ?thesis
    by (auto simp: find_free_port_zero_eq probe_result_eq)
next
  case False
  have "\<forall>p \<in> set (P # [8001..8010]). 0 \<le> p \<and> p \<le> 65535"
    using assms fallback_in_range by simp
  then have "fst (probe_ports (P # [8001..8010]) w) =
      Inr (case List.find (probe_binds w) (P # [8001..8010]) of Some q \<Rightarrow> q | None \<Rightarrow> 0)"
    by (intro probe_ports_result) simp_all
  with False show ?thesis by (simp add: find_free_port_def)
qed

text \<open>A preferred port of 8001, itself among the taken ports.\<close>

theorem find_free_port_no_raise_witness:
  "(0::int) \<le> 8001 \<and> (8001::int) \<le> 65535 \<and> (8001::int) \<noteq> 0 \<and>
   (\<exists>port. fst (find_free_port 8001 world_busy) = Inr port)"
  using find_free_port_no_raise [of 8001 world_busy] by simp

text \<open>
  C3 as stated, for every integer, fails at 70000: find_free_port raises OverflowError.
\<close>

theorem find_free_port_no_raise_counterexample:
  "fst (find_free_port 70000 world_busy) = Inl OverflowError"
  by (simp add: find_free_port_def probe_ports_Cons probe_result_eq)

section \<open>Binding to port 0\<close>

lemma map_of_fresh [simp]: "map_of (socks w) (fresh_id w) = None"
  by (auto simp: map_of_eq_None_iff dest: fresh_id_fresh)

lemma socks_bound:
  "probe_result w (host, p) = None \<Longrightarrow>
   socks (bound w (host, p)) = socks w @ [(fresh_id w, Some (host, bound_port w p))]"
proof -
  assume ok: "probe_result w (host, p) = None"
  have same: "map (\<lambda>(f, a). if f = fresh_id w then (f, Some x) else (f, a)) (socks w) = socks w"
    for x :: "string \<times> int"
    by (rule map_idI) (auto dest: fresh_id_fresh)
  from ok show ?thesis
    by (simp add: probe_result_eq bound_def bound_port_def sock_bind_def Let_def set_addr_def same
          split: if_splits option.splits)
qed

lemma bound_fields [simp]:
  "unavailable (bound w addr) = unavailable w"
  "ephemeral (bound w addr) = ephemeral w"
  "cwd (bound w addr) = cwd w"
  "trace (bound w addr) = trace w @ [SocketCreate (fresh_id w), Bind (fresh_id w) (fst addr) (snd addr)]"
  by (simp_all add: bound_def)

lemma getsockname_bound:
  "probe_result w (host, p) = None \<Longrightarrow>
   sock_getsockname (fresh_id w) (bound w (host, p)) = (host, bound_port w p)"
  by (simp add: sock_getsockname_def socks_bound map_add_def)

text \<open>
  C6. When the kernel hands out the (nonzero, 16-bit) port \<open>e\<close> for a bind to port 0,
  find_free_port 0 returns \<open>e\<close>, a number in (0, 65535]; all it does is create one
  socket, bind it to port 0 on 127.0.0.1 and close it.
\<close>

theorem find_free_port_zero:
  assumes "ephemeral w = Some e" and "e \<noteq> 0"
  shows "fst (find_free_port 0 w) = Inr (uint e) \<and> 0 < uint e \<and> uint e \<le> 65535 \<and>
         new_events w (snd (find_free_port 0 w)) =
           [SocketCreate (fresh_id w), Bind (fresh_id w) ''127.0.0.1'' 0, Close (fresh_id w)]"
proof -
  from assms(1) have ok: "probe_result w (''127.0.0.1'', 0) = None"
    by (simp add: probe_result_eq)
  have "uint e < 2 ^ 16" using uint_lt2p [of e] by simp
  moreover have "0 < uint e"
  proof -
    have "uint e \<noteq> 0" using assms(2) by (simp add: uint_0_iff)
    moreover have "0 \<le> uint e" by simp
    ultimately show ?thesis by linarith
  qed
  ultimately show ?thesis
    using ok assms(1)
    by (simp add: find_free_port_zero_eq getsockname_bound bound_port_def new_events_def)
qed

text \<open>The kernel hands out 49152.\<close>

theorem find_free_port_zero_witness:
  "ephemeral world_free = Some 49152 \<and> (49152::16 word) \<noteq> 0 \<and>
   fst (find_free_port 0 world_free) = Inr 49152"
  using find_free_port_zero [of world_free 49152] by simp

section \<open>serve and main, step by step\<close>

lemma find_free_port_result:
  assumes "0 < P" and "P \<le> 65535"
  shows "fst (find_free_port P w) =
           Inr (case List.find (probe_binds w) (P # [8001..8010]) of Some q \<Rightarrow> q | None \<Rightarrow> 0)"
proof -
  have "\<forall>p \<in> set (P # [8001..8010]). 0 \<le> p \<and> p \<le> 65535"
    using assms fallback_in_range by simp
  then have "fst (probe_ports (P # [8001..8010]) w) =
      Inr (case List.find (probe_binds w) (P # [8001..8010]) of Some q \<Rightarrow> q | None \<Rightarrow> 0)"
    by (intro probe_ports_result) simp_all
  with assms show ?thesis by (simp add: find_free_port_def)
qed

lemma find_free_port_same_os [simp]: "same_os w (snd (find_free_port p w')) = same_os w w'"
proof (cases "p = 0")
  case True
  then show ?thesis by (simp add: find_free_port_zero_eq split: option.splits)
next
  case False
  then show ?thesis by (simp add: find_free_port_def probe_ports_same_os)
qed

lemma find_free_port_trace:
  "\<exists>evs. trace (snd (find_free_port p w)) = trace w @ evs \<and> list_all socket_event evs"
proof (cases "p = 0")
  case True
  then show ?thesis
    by (simp add: find_free_port_zero_eq socket_event_def split: option.splits)
next
  case False
  then show ?thesis by (simp add: find_free_port_def probe_ports_trace)
qed

lemma serve_ok:
  "probe_result w (''127.0.0.1'', port) = None \<Longrightarrow>
   serve port w =
     (Inr (\<lparr>server_socket = fresh_id w, server_address = (''127.0.0.1'', bound_port w port)\<rparr>,
           ''http://127.0.0.1:'' @ py_str (bound_port w port) @ ''/index.html''),
      log (Listen (fresh_id w)) (bound w (''127.0.0.1'', port)))"
  by (simp add: serve_def ThreadingHTTPServer_eq getsockname_bound)

lemma serve_fail:
  "probe_result w (''127.0.0.1'', port) = Some e \<Longrightarrow>
   serve port w = (Inl e, after_probe w (''127.0.0.1'', port))"
  by (simp add: serve_def ThreadingHTTPServer_eq)

lemma os_chdir_fields [simp]:
  "unavailable (os_chdir d w) = unavailable w" "ephemeral (os_chdir d w) = ephemeral w"
  "socks (os_chdir d w) = socks w" "cwd (os_chdir d w) = d"
  "trace (os_chdir d w) = trace w @ [Chdir d]"
  by (simp_all add: os_chdir_def)

lemma py_print_fields [simp]:
  "unavailable (py_print s w) = unavailable w" "ephemeral (py_print s w) = ephemeral w"
  "socks (py_print s w) = socks w" "cwd (py_print s w) = cwd w"
  "trace (py_print s w) = trace w @ [Print s]"
  by (simp_all add: py_print_def)

lemma shutdown_and_close_fields [simp]:
  "socks (shutdown_and_close httpd w) = filter (\<lambda>(f, a). f \<noteq> server_socket httpd) (socks w)"
  "cwd (shutdown_and_close httpd w) = cwd w"
  "trace (shutdown_and_close httpd w) = trace w @ [Shutdown, Close (server_socket httpd)]"
  by (simp_all add: shutdown_and_close_def)

text \<open>main with find_free_port and serve both successful.\<close>

lemma main_started:
  assumes "find_free_port p (os_chdir d w) = (Inr port, w2)"
    and "probe_result w2 (''127.0.0.1'', port) = None"
  shows "main d p intr w =
     (let httpd = \<lparr>server_socket = fresh_id w2, server_address = (''127.0.0.1'', bound_port w2 port)\<rparr>;
          url = ''http://127.0.0.1:'' @ py_str (bound_port w2 port) @ ''/index.html'';
          w3 = log (Listen (fresh_id w2)) (bound w2 (''127.0.0.1'', port));
          w7 = log (BrowserOpen url) (log ThreadStart
                 (py_print (''Homepage:   '' @ url)
                    (py_print (''Serving at: http://127.0.0.1:'' @ py_str port) w3)))
      in case intr of
           InterruptInOpen \<Rightarrow>
             (Returned 0, shutdown_and_close httpd (py_print (CHR 0x0A # ''Shutting down...'') w7))
         | InterruptInJoin \<Rightarrow>
             (Returned 0,
              shutdown_and_close httpd
                (py_print (CHR 0x0A # ''Shutting down...'') (log ThreadJoin w7)))
         | NoInterrupt \<Rightarrow> (Blocked, log ThreadJoin w7))"
  using assms by (simp add: main_def serve_ok Let_def)

lemma main_raised_probe:
  "find_free_port p (os_chdir d w) = (Inl e, w2) \<Longrightarrow> main d p intr w = (Raised e, w2)"
  by (simp add: main_def)

lemma main_raised_serve:
  "find_free_port p (os_chdir d w) = (Inr port, w2) \<Longrightarrow>
   probe_result w2 (''127.0.0.1'', port) = Some e \<Longrightarrow>
   main d p intr w = (Raised e, after_probe w2 (''127.0.0.1'', port))"
  by (simp add: main_def serve_fail)

section \<open>The effects of a run\<close>

lemma socket_event_main_event: "socket_event e \<Longrightarrow> main_event e"
  by (cases e) (simp_all add: socket_event_def main_event_def)

lemma list_all_socket_main: "list_all socket_event evs \<Longrightarrow> list_all main_event evs"
  by (induction evs) (simp_all add: socket_event_main_event)

lemma main_event_simps [simp]:
  "main_event (SocketCreate fd)" "main_event (Bind fd host p) = (host = ''127.0.0.1'')"
  "main_event (Listen fd)" "main_event (Close fd)" "main_event (Print s)" "main_event ThreadStart"
  "main_event (BrowserOpen url)" "main_event ThreadJoin" "main_event Shutdown"
  by (simp_all add: main_event_def)

text \<open>Every run of main: first the change of directory, then effects of the kinds above.\<close>

lemma main_trace:
  "\<exists>rest. trace (snd (main d p intr w)) = trace w @ Chdir d # rest \<and> list_all main_event rest"
proof -
  obtain r w2 where ffp: "find_free_port p (os_chdir d w) = (r, w2)"
    by (cases "find_free_port p (os_chdir d w)")
  obtain evs where "trace (snd (find_free_port p (os_chdir d w))) = trace (os_chdir d w) @ evs"
    and "list_all socket_event evs"
    using find_free_port_trace by blast
  with ffp have w2: "trace w2 = trace w @ Chdir d # evs" and evs: "list_all main_event evs"
    by (simp_all add: list_all_socket_main)
  show ?thesis
  proof (cases r)
    case (Inl e)
    with ffp w2 evs show ?thesis by (simp add: main_raised_probe)
  next
    case (Inr port)
    show ?thesis
    proof (cases "probe_result w2 (''127.0.0.1'', port)")
      case (Some e)
      with ffp Inr w2 evs show ?thesis by (simp add: main_raised_serve)
    next
      case None
      with ffp Inr w2 evs show ?thesis
        by (cases intr) (simp_all add: main_started Let_def)
    qed
  qed
qed


lemma serve_trace:
  "\<exists>evs. trace (snd (serve port w)) = trace w @ evs \<and> list_all socket_event evs"
  by (cases "probe_result w (''127.0.0.1'', port)")
     (simp_all add: serve_ok serve_fail socket_event_def)

lemma socket_event_binds_loopback: "list_all socket_event evs \<Longrightarrow> list_all binds_loopback evs"
  by (induction evs) (auto simp: socket_event_def binds_loopback_def split: event.splits)

lemma main_event_binds_loopback: "list_all main_event evs \<Longrightarrow> list_all binds_loopback evs"
  by (induction evs) (auto simp: main_event_def binds_loopback_def split: event.splits)

text \<open>
  C7. Every bind call made by find_free_port, by serve and by a whole run of main, for
  any port argument, any state of the ports and any interrupt, names the host 127.0.0.1.
\<close>

theorem binds_are_loopback:
  "list_all binds_loopback (new_events w (snd (find_free_port p w))) \<and>
   list_all binds_loopback (new_events w (snd (serve p w))) \<and>
   list_all binds_loopback (new_events w (snd (main d p intr w)))"
proof (intro conjI)
  obtain evs where "trace (snd (find_free_port p w)) = trace w @ evs" "list_all socket_event evs"
    using find_free_port_trace by blast
  then show "list_all binds_loopback (new_events w (snd (find_free_port p w)))"
    by (simp add: new_events_def socket_event_binds_loopback)
next
  obtain evs where "trace (snd (serve p w)) = trace w @ evs" "list_all socket_event evs"
    using serve_trace by blast
  then show "list_all binds_loopback (new_events w (snd (serve p w)))"
    by (simp add: new_events_def socket_event_binds_loopback)
next
  obtain rest where "trace (snd (main d p intr w)) = trace w @ Chdir d # rest"
    "list_all main_event rest"
    using main_trace by blast
  then show "list_all binds_loopback (new_events w (snd (main d p intr w)))"
    by (simp add: new_events_def main_event_binds_loopback binds_loopback_def)
qed



section \<open>Interrupt and shutdown\<close>


lemma probe_result_after_find [simp]:
  "probe_result (snd (find_free_port p w)) addr = probe_result w addr"
  by (rule same_os_probe_result) simp

lemma probe_result_os_chdir [simp]: "probe_result (os_chdir d w) addr = probe_result w addr"
  by (cases addr) (simp add: probe_result_eq port_held_def)

lemma socks_after_find [simp]: "socks (snd (find_free_port p w)) = socks w"
proof -
  have "same_os w (snd (find_free_port p w))" by simp
  then show ?thesis by (simp add: same_os_def)
qed

lemma ephemeral_after_find [simp]: "ephemeral (snd (find_free_port p w)) = ephemeral w"
proof -
  have "same_os w (snd (find_free_port p w))" by simp
  then show ?thesis by (simp add: same_os_def)
qed

lemma fresh_id_cong: "socks w' = socks w \<Longrightarrow> fresh_id w' = fresh_id w"
  by (simp add: fresh_id_def)




section \<open>The lines printed at startup\<close>

lemma printed_append [simp]: "printed (xs @ ys) = printed xs @ printed ys"
  by (induction xs rule: printed.induct) simp_all

lemma printed_socket_events: "list_all socket_event evs \<Longrightarrow> printed evs = []"
  by (induction evs rule: printed.induct) (simp_all add: socket_event_def)

lemma printed_after_find: "printed (trace (snd (find_free_port p w))) = printed (trace w)"
proof -
  obtain evs where "trace (snd (find_free_port p w)) = trace w @ evs" "list_all socket_event evs"
    using find_free_port_trace by blast
  then show ?thesis by (simp add: printed_socket_events)
qed

text \<open>What an uninterrupted run prints, and the address its server socket is bound to.\<close>

lemma main_printed:
  assumes "find_free_port p (os_chdir d w) = (Inr port, w2)"
    and "probe_result w2 (''127.0.0.1'', port) = None"
  shows "printed (trace (snd (main d p NoInterrupt w))) =
           printed (trace w) @
           [''Serving at: http://127.0.0.1:'' @ py_str port,
            ''Homepage:   http://127.0.0.1:'' @ py_str (bound_port w2 port) @ ''/index.html'']"
    and "socks (snd (main d p NoInterrupt w)) =
           socks w @ [(fresh_id w, Some (''127.0.0.1'', bound_port w2 port))]"
proof -
  from assms(1) have w2: "w2 = snd (find_free_port p (os_chdir d w))" by simp
  have pr: "printed (trace w2) = printed (trace w)"
    unfolding w2 by (simp add: printed_after_find)
  have so: "socks w2 = socks w" unfolding w2 by simp
  then have fr: "fresh_id w2 = fresh_id w" by (rule fresh_id_cong)
  show "printed (trace (snd (main d p NoInterrupt w))) =
           printed (trace w) @
           [''Serving at: http://127.0.0.1:'' @ py_str port,
            ''Homepage:   http://127.0.0.1:'' @ py_str (bound_port w2 port) @ ''/index.html'']"
    by (simp add: main_started [OF assms] Let_def pr)
  show "socks (snd (main d p NoInterrupt w)) =
           socks w @ [(fresh_id w, Some (''127.0.0.1'', bound_port w2 port))]"
    using assms(2) by (simp add: main_started [OF assms] Let_def socks_bound so fr)
qed

text \<open>When find_free_port returns a port other than 0, both lines name the bound port.\<close>

lemma main_printed_nonzero:
  assumes "find_free_port p (os_chdir d w) = (Inr port, w2)"
    and "probe_result w2 (''127.0.0.1'', port) = None" and "port \<noteq> 0"
  shows "printed (trace (snd (main d p NoInterrupt w))) =
           printed (trace w) @
           [''Serving at: http://127.0.0.1:'' @ py_str port,
            ''Homepage:   http://127.0.0.1:'' @ py_str port @ ''/index.html'']"
    and "map snd (socks (snd (main d p NoInterrupt w))) =
           map snd (socks w) @ [Some (''127.0.0.1'', port)]"
  using main_printed [OF assms(1,2)] assms(3) by (simp_all add: bound_port_def)

lemma py_str_0: "py_str 0 = ''0''"
  by (simp add: py_str_def)

lemma py_str_49152: "py_str 49152 = ''49152''"
  by (simp add: py_str_def)

text \<open>
  C2 at \<^verbatim>\<open>--port 8000\<close> with ports 8000 to 8010 all taken: find_free_port returns 0,
  the server socket is bound to the port the kernel assigns, 49152, and the Homepage
  line names it, but the first line printed is "Serving at: http://127.0.0.1:0".
\<close>

theorem serving_line_names_port_0:
  "printed (trace (snd (main ''/repo'' 8000 NoInterrupt world_busy))) =
     [''Serving at: http://127.0.0.1:0'', ''Homepage:   http://127.0.0.1:49152/index.html''] \<and>
   map snd (socks (snd (main ''/repo'' 8000 NoInterrupt world_busy))) =
     [Some (''127.0.0.1'', 49152)]"
proof -
  let ?w2 = "snd (find_free_port 8000 (os_chdir ''/repo'' world_busy))"
  have "fst (find_free_port 8000 (os_chdir ''/repo'' world_busy)) = Inr 0"
    by (simp add: find_free_port_result probe_binds_eq)
  then have ffp: "find_free_port 8000 (os_chdir ''/repo'' world_busy) = (Inr 0, ?w2)"
    by (simp add: prod_eq_iff)
  have ok: "probe_result ?w2 (''127.0.0.1'', 0) = None"
    by (simp add: probe_result_eq)
  have bp: "bound_port ?w2 0 = 49152" by (simp add: bound_port_def)
  from main_printed [OF ffp ok] show ?thesis
    by (simp add: bp py_str_0 py_str_49152)
qed

section \<open>The no-cache headers\<close>









end
